theory Spec2Isabelle
  imports Main
begin

section \<open>JavaScript values and objects\<close>

text \<open>
  The values that flow through \<^verbatim>\<open>api/transact.js\<close>. An object is the list of its own
  enumerable properties in the order in which they are enumerated, which for the names
  this program uses is the order of their insertion. Numbers are only tested for
  truthiness here:
  \<open>JNum\<close> carries the integral ones and \<open>JNaN\<close> stands for \<^verbatim>\<open>NaN\<close>
  (a non-integral number is truthy like every non-zero \<open>JNum\<close>).
\<close>

datatype jsval =
    JUndefined
  | JNull
  | JBool bool
  | JNum int
  | JNaN
  | JStr string
  | JObj "(string \<times> jsval) list"

type_synonym props = "(string \<times> jsval) list"

text \<open>The condition of \<^verbatim>\<open>x ? a : b\<close>: JavaScript's ToBoolean.\<close>

fun truthy :: "jsval \<Rightarrow> bool" where
  "truthy JUndefined = False"
| "truthy JNull = False"
| "truthy (JBool b) = b"
| "truthy (JNum n) = (n \<noteq> 0)"
| "truthy JNaN = False"
| "truthy (JStr s) = (s \<noteq> [])"
| "truthy (JObj ps) = True"

text \<open>\<^verbatim>\<open>object[key]\<close>: the value stored under the key, \<^verbatim>\<open>undefined\<close> when there is none.\<close>

definition getProp :: "props \<Rightarrow> string \<Rightarrow> jsval" where
  "getProp object key = (case map_of object key of None \<Rightarrow> JUndefined | Some v \<Rightarrow> v)"

text \<open>\<^verbatim>\<open>key in object\<close> for own properties.\<close>

definition hasKey :: "props \<Rightarrow> string \<Rightarrow> bool" where
  "hasKey object key = (map_of object key \<noteq> None)"

text \<open>\<^verbatim>\<open>object[key] = value\<close>: an existing key keeps its place, a new one goes last.\<close>

fun setProp :: "string \<Rightarrow> jsval \<Rightarrow> props \<Rightarrow> props" where
  "setProp key v [] = [(key, v)]"
| "setProp key v ((k, w) # ps) = (if k = key then (key, v) # ps else (k, w) # setProp key v ps)"

text \<open>\<^verbatim>\<open>_.keys(object)\<close>.\<close>

definition keys :: "props \<Rightarrow> string list" where
  "keys object = map fst object"

subsection \<open>lodash: assign and difference\<close>

text \<open>
  \<^verbatim>\<open>_.assign(object, source1, source2, ...)\<close> copies, source by source and key by key,
  \<^verbatim>\<open>object[key] = source[key]\<close> (lodash's \<^verbatim>\<open>baseCopy\<close> over \<^verbatim>\<open>keys(source)\<close>).
\<close>

definition baseCopy :: "props \<Rightarrow> string list \<Rightarrow> props \<Rightarrow> props" where
  "baseCopy source ks object = fold (\<lambda>key obj. setProp key (getProp source key) obj) ks object"

definition assign :: "props \<Rightarrow> props list \<Rightarrow> props" where
  "assign object sources = fold (\<lambda>source obj. baseCopy source (keys source) obj) sources object"

text \<open>\<^verbatim>\<open>_.difference(array, values)\<close>: the elements of the array that are not among the values.\<close>

definition difference :: "string list \<Rightarrow> string list \<Rightarrow> string list" where
  "difference array vals = filter (\<lambda>x. x \<notin> set vals) array"

section \<open>Errors and outcomes\<close>

text \<open>
  The failures of the pipeline: the validation, construction and submission errors of the
  gateway, and the \<^verbatim>\<open>TypeError\<close> of reading a property of \<^verbatim>\<open>undefined\<close> or
  \<^verbatim>\<open>null\<close>. \<open>UnrecognizedOption\<close> carries the option keys that were not recognized.
\<close>

datatype error =
    InvalidAddress
  | InvalidSecret
  | AddressSecretMismatch
  | UnrecognizedOption "string list"
  | UnsupportedTransactionType
  | NetworkUnavailable
  | SubmissionRejected
  | Expired
  | TypeError
  | OtherError string

text \<open>
  What a call of \<^verbatim>\<open>transact\<close> does: it throws before returning, or it returns and the
  callback later receives an error or a result.
\<close>

datatype outcome =
    Thrown error
  | CallbackError error
  | CallbackResult props

text \<open>Whether a call threw before returning.\<close>

fun isThrown :: "outcome \<Rightarrow> bool" where
  "isThrown (Thrown e) = True"
| "isThrown (CallbackError e) = False"
| "isThrown (CallbackResult r) = False"

section \<open>api/transact.js\<close>

text \<open>
  The collaborators \<^verbatim>\<open>transact.js\<close> requires and that are not part of it: the signer,
  the builder \<^verbatim>\<open>createTxJSON\<close>, \<^verbatim>\<open>transactions.submit\<close> and the three validators of
  \<^verbatim>\<open>lib/validate\<close>. The builder and the submitter talk to the network: they take the
  state \<open>'w\<close> of the world outside and return it changed, with the error or the value
  they hand to their callback. A validator returns the error it throws, if any.
\<close>

record 'r api =
  remote :: 'r

record transaction =
  tx_json :: props

record ('r, 'w) collaborators =
  sign :: "jsval \<Rightarrow> jsval \<Rightarrow> error + props"
  createTxJSON :: "transaction \<Rightarrow> 'r \<Rightarrow> jsval \<Rightarrow> 'w \<Rightarrow> (error + props) \<times> 'w"
  transactions_submit :: "'r api \<Rightarrow> transaction \<Rightarrow> jsval \<Rightarrow> jsval \<Rightarrow> 'w \<Rightarrow> (error + props) \<times> 'w"
  validate_addressAndMaybeSecret :: "jsval \<Rightarrow> jsval \<Rightarrow> error option"
  validate_addressAndSecret :: "jsval \<Rightarrow> jsval \<Rightarrow> error option"
  validate_options :: "jsval \<Rightarrow> error option"

text \<open>A converter takes the object to convert and an options argument, and returns an object or throws.\<close>

type_synonym converter = "props \<Rightarrow> jsval \<Rightarrow> error + props"

text \<open>
  \<^verbatim>\<open>var signResponse = secret ? sign(prepared.tx_json, secret) : {};
  return _.assign({}, prepared, signResponse);\<close>
\<close>

definition signIfSecretExists ::
  "(jsval \<Rightarrow> jsval \<Rightarrow> error + props) \<Rightarrow> jsval \<Rightarrow> props \<Rightarrow> error + props" where
  "signIfSecretExists signer secret prepared =
     (case (if truthy secret then signer (getProp prepared ''tx_json'') secret else Inr []) of
        Inl e \<Rightarrow> Inl e
      | Inr signResponse \<Rightarrow> Inr (assign [] [prepared, signResponse]))"

text \<open>\<^verbatim>\<open>return _.assign({}, prepared, converter(prepared, {}));\<close>\<close>

definition formatResponse :: "converter \<Rightarrow> props \<Rightarrow> error + props" where
  "formatResponse conv prepared =
     (case conv prepared (JObj []) of
        Inl e \<Rightarrow> Inl e
      | Inr converted \<Rightarrow> Inr (assign [] [prepared, converted]))"

text \<open>
  The two validations run first and throw; then \<^verbatim>\<open>async.waterfall\<close> runs
  \<^verbatim>\<open>createTxJSON\<close>, \<^verbatim>\<open>signIfSecretExists\<close> and \<^verbatim>\<open>formatResponse\<close> in turn and hands
  the first error, or the last result, to the callback. An exception inside an
  \<^verbatim>\<open>asyncify\<close>d stage reaches the callback as its error.
\<close>

definition prepareAndOptionallySign ::
  "('r, 'w) collaborators \<Rightarrow> transaction \<Rightarrow> 'r api \<Rightarrow> jsval \<Rightarrow> jsval \<Rightarrow> converter \<Rightarrow> 'w
     \<Rightarrow> outcome \<times> 'w" where
  "prepareAndOptionallySign c tx a secret options conv w =
     (let address = getProp (tx_json tx) ''Account'' in
      case validate_addressAndMaybeSecret c address secret of
        Some e \<Rightarrow> (Thrown e, w)
      | None \<Rightarrow>
         (case validate_options c options of
            Some e \<Rightarrow> (Thrown e, w)
          | None \<Rightarrow>
             (case createTxJSON c tx (remote a) options w of
                (Inl e, w') \<Rightarrow> (CallbackError e, w')
              | (Inr prepared, w') \<Rightarrow>
                 (case signIfSecretExists (sign c) secret prepared of
                    Inl e \<Rightarrow> (CallbackError e, w')
                  | Inr signed \<Rightarrow>
                     (case formatResponse conv signed of
                        Inl e \<Rightarrow> (CallbackError e, w')
                      | Inr response \<Rightarrow> (CallbackResult response, w'))))))"

text \<open>
  Here the waterfall is \<^verbatim>\<open>transactions.submit\<close> followed by the converter, which the
  waterfall calls with the submission's result alone.
\<close>

definition prepareAndSignAndSubmit ::
  "('r, 'w) collaborators \<Rightarrow> transaction \<Rightarrow> 'r api \<Rightarrow> jsval \<Rightarrow> jsval \<Rightarrow> converter \<Rightarrow> 'w
     \<Rightarrow> outcome \<times> 'w" where
  "prepareAndSignAndSubmit c tx a secret options conv w =
     (let address = getProp (tx_json tx) ''Account'' in
      case validate_addressAndSecret c address secret of
        Some e \<Rightarrow> (Thrown e, w)
      | None \<Rightarrow>
         (case validate_options c options of
            Some e \<Rightarrow> (Thrown e, w)
          | None \<Rightarrow>
             (case transactions_submit c a tx secret options w of
                (Inl e, w') \<Rightarrow> (CallbackError e, w')
              | (Inr message, w') \<Rightarrow>
                 (case conv message JUndefined of
                    Inl e \<Rightarrow> (CallbackError e, w')
                  | Inr response \<Rightarrow> (CallbackResult response, w')))))"

text \<open>
  \<^verbatim>\<open>options.submit\<close>: reading it throws a \<^verbatim>\<open>TypeError\<close> when \<^verbatim>\<open>options\<close> is
  \<^verbatim>\<open>undefined\<close> or \<^verbatim>\<open>null\<close>; an object gives the value under the key; a boolean, a number
  or a string has no property of that name.
\<close>

fun options_submit :: "jsval \<Rightarrow> error + jsval" where
  "options_submit JUndefined = Inl TypeError"
| "options_submit JNull = Inl TypeError"
| "options_submit (JObj ps) = Inr (getProp ps ''submit'')"
| "options_submit v = Inr JUndefined"

text \<open>
  \<^verbatim>\<open>if (options.submit === false) prepareAndOptionallySign.apply(this, arguments);
  else prepareAndSignAndSubmit.apply(this, arguments);\<close>
\<close>

definition transact ::
  "('r, 'w) collaborators \<Rightarrow> transaction \<Rightarrow> 'r api \<Rightarrow> jsval \<Rightarrow> jsval \<Rightarrow> converter \<Rightarrow> 'w
     \<Rightarrow> outcome \<times> 'w" where
  "transact c tx a secret options conv w =
     (case options_submit options of
        Inl e \<Rightarrow> (Thrown e, w)
      | Inr submit \<Rightarrow>
         if submit = JBool False
         then prepareAndOptionallySign c tx a secret options conv w
         else prepareAndSignAndSubmit c tx a secret options conv w)"

section \<open>The test harness: ledger closes\<close>

text \<open>\<^verbatim>\<open>var LEDGER_OFFSET = 3;\<close>\<close>

definition LEDGER_OFFSET :: nat where
  "LEDGER_OFFSET = 3"

text \<open>
  \<^verbatim>\<open>for (var i = 0; i < LEDGER_OFFSET + 2; i++) { conn.send(fixtures.ledgerClose(i + 1)); }\<close>
  The connection is the list of the messages sent on it so far; \<open>ledgerClose\<close> is the
  fixture that builds the message of a ledger index.
\<close>

function closeLedgers_from :: "(nat \<Rightarrow> 'm) \<Rightarrow> nat \<Rightarrow> 'm list \<Rightarrow> 'm list" where
  "closeLedgers_from ledgerClose i conn =
     (if i < LEDGER_OFFSET + 2
      then closeLedgers_from ledgerClose (i + 1) (conn @ [ledgerClose (i + 1)])
      else conn)"
  by pat_completeness auto
termination
  by (relation "measure (\<lambda>(ledgerClose, i, conn). LEDGER_OFFSET + 2 - i)") auto

definition closeLedgers :: "(nat \<Rightarrow> 'm) \<Rightarrow> 'm list \<Rightarrow> 'm list" where
  "closeLedgers ledgerClose conn = closeLedgers_from ledgerClose 0 conn"

section \<open>The validators, as the specification describes them\<close>

text \<open>
  What the key material decides: whether an address is well formed, whether a secret is,
  and whether a secret derives an address.
\<close>

record keycheck =
  addressValid :: "jsval \<Rightarrow> bool"
  secretValid :: "jsval \<Rightarrow> bool"
  derives :: "jsval \<Rightarrow> jsval \<Rightarrow> bool"

text \<open>
  Modelled from the spec: \<^verbatim>\<open>lib/validate\<close> (\<^verbatim>\<open>addressAndSecret\<close>,
  \<^verbatim>\<open>addressAndMaybeSecret\<close>) is required by \<^verbatim>\<open>transact.js\<close> and is not among the
  sources. The address must be valid; a secret that is present must be well formed and
  derive the address; an absent secret (\<^verbatim>\<open>undefined\<close>) is an error when the secret is
  mandatory and accepted when it is optional. The specification names no error of its
  own for the missing mandatory secret; the model raises \<open>InvalidSecret\<close>.
\<close>

definition validateAddressAndSecret :: "keycheck \<Rightarrow> bool \<Rightarrow> jsval \<Rightarrow> jsval \<Rightarrow> error option" where
  "validateAddressAndSecret kc mandatory address secret =
     (if \<not> addressValid kc address then Some InvalidAddress
      else if secret = JUndefined then (if mandatory then Some InvalidSecret else None)
      else if \<not> secretValid kc secret then Some InvalidSecret
      else if \<not> derives kc secret address then Some AddressSecretMismatch
      else None)"

text \<open>
  Modelled from the spec: \<^verbatim>\<open>validate.options\<close> of \<^verbatim>\<open>lib/validate\<close> is called by both
  pipelines of \<^verbatim>\<open>transact.js\<close> and is not among the sources. The keys of the options
  must all be among a statically known set of recognized keys; the set difference of
  the options' keys and the recognized keys holds the keys that are not, and when it is
  not empty the validation fails with \<open>UnrecognizedOption\<close>, which carries them.
\<close>

definition validateOptions :: "string list \<Rightarrow> props \<Rightarrow> error option" where
  "validateOptions recognized options =
     (let unrecognized = difference (keys options) recognized in
      if unrecognized = [] then None else Some (UnrecognizedOption unrecognized))"

section \<open>The builder's validity window and the pending tracker, as the specification describes them\<close>

text \<open>
  Modelled from the spec: \<^verbatim>\<open>createTxJSON\<close> (\<^verbatim>\<open>transaction/utils\<close>) is not among the
  sources. It sets \<^verbatim>\<open>LastLedgerSequence = currentLedgerIndex + OFFSET\<close>, with the
  harness's \<open>LEDGER_OFFSET\<close> for the offset.
\<close>

definition builderLastLedgerSequence :: "nat \<Rightarrow> nat" where
  "builderLastLedgerSequence currentLedgerIndex = currentLedgerIndex + LEDGER_OFFSET"

text \<open>
  Modelled from the spec: the pending entry and the state of the tracker, which are not
  among the sources. An entry has one of three statuses; the tracker holds the current
  ledger and the entries, each under its account and sequence.
\<close>

datatype status = pending | succeeded | expired

record PendingEntry =
  account :: string
  sequence :: nat
  LastLedgerSequence :: nat
  submittedAtLedger :: nat
  status :: status

record tracker =
  currentLedger :: nat
  entries :: "PendingEntry list"

text \<open>
  Modelled from the spec: the pending tracker behind \<^verbatim>\<open>transactions.submit\<close> is not
  among the sources. On submission it creates an entry with status pending, submitted at
  the current ledger, with the window the builder computed.
\<close>

definition submitEntry :: "string \<Rightarrow> nat \<Rightarrow> tracker \<Rightarrow> tracker" where
  "submitEntry acct sq t =
     t\<lparr>entries := entries t @
        [\<lparr>account = acct, sequence = sq,
          LastLedgerSequence = builderLastLedgerSequence (currentLedger t),
          submittedAtLedger = currentLedger t, status = pending\<rparr>]\<rparr>"

text \<open>
  Modelled from the spec: on each ledger-close event, every pending entry with
  \<^verbatim>\<open>LastLedgerSequence < event.ledgerIndex\<close> goes from pending to expired (and so leaves
  the active set); the event's index becomes the current ledger.
\<close>

definition expireEntry :: "nat \<Rightarrow> PendingEntry \<Rightarrow> PendingEntry" where
  "expireEntry ledgerIndex e =
     (if status e = pending \<and> LastLedgerSequence e < ledgerIndex then e\<lparr>status := expired\<rparr> else e)"

definition onLedgerClose :: "nat \<Rightarrow> tracker \<Rightarrow> tracker" where
  "onLedgerClose ledgerIndex t =
     t\<lparr>currentLedger := ledgerIndex, entries := map (expireEntry ledgerIndex) (entries t)\<rparr>"

text \<open>The ledger-close events of a list of indexes, delivered in order.\<close>

definition deliverLedgerCloses :: "nat list \<Rightarrow> tracker \<Rightarrow> tracker" where
  "deliverLedgerCloses ledgerIndexes t = fold onLedgerClose ledgerIndexes t"

text \<open>The active set: the entries that are still pending.\<close>

definition activeSet :: "tracker \<Rightarrow> PendingEntry list" where
  "activeSet t = filter (\<lambda>e. status e = pending) (entries t)"

text \<open>The entry under an account and a sequence.\<close>

definition findEntry :: "string \<Rightarrow> nat \<Rightarrow> tracker \<Rightarrow> PendingEntry option" where
  "findEntry acct sq t = find (\<lambda>e. account e = acct \<and> sequence e = sq) (entries t)"

text \<open>
  Modelled from the spec: what the pipeline reports for an entry. It waits while the
  entry is pending, reports \<open>Expired\<close> for an expired one and success for a succeeded one.
\<close>

fun pipelineResult :: "status \<Rightarrow> (error + unit) option" where
  "pipelineResult pending = None"
| "pipelineResult succeeded = Some (Inr ())"
| "pipelineResult expired = Some (Inl Expired)"

text \<open>The ledger indexes \<open>L + 1, ..., L + n\<close> of \<open>n\<close> closes after ledger \<open>L\<close>.\<close>

definition closesAfter :: "nat \<Rightarrow> nat \<Rightarrow> nat list" where
  "closesAfter L n = map (\<lambda>i. L + i) [1..<Suc n]"

declare closeLedgers_from.simps [simp del]

section \<open>A concrete gateway\<close>

text \<open>
  An instance of the collaborators on which the pipeline can be run: one account \<open>rA\<close>
  with the secret \<open>sA\<close>, a builder and a submitter that record their invocation in the
  world (the list of the calls made so far), a signer that returns a blob and a hash, the
  validators modelled above, the options validator recognizing the keys
  \<open>submit\<close> and \<open>validated\<close>.
\<close>

definition exampleKeycheck :: keycheck where
  "exampleKeycheck =
     \<lparr>addressValid = (\<lambda>address. address = JStr ''rA''),
      secretValid = (\<lambda>secret. secret = JStr ''sA''),
      derives = (\<lambda>secret address. secret = JStr ''sA'' \<and> address = JStr ''rA'')\<rparr>"

definition recordingCollaborators :: "(unit, string list) collaborators" where
  "recordingCollaborators =
     \<lparr>sign = (\<lambda>tx secret. Inr [(''tx_blob'', JStr ''BLOB''), (''hash'', JStr ''HASH'')]),
      createTxJSON = (\<lambda>tx r options w. (Inr [(''tx_json'', JObj (tx_json tx))], w @ [''createTxJSON''])),
      transactions_submit = (\<lambda>a tx secret options w.
        (Inr [(''engine_result'', JStr ''tesSUCCESS'')], w @ [''transactions.submit''])),
      validate_addressAndMaybeSecret = validateAddressAndSecret exampleKeycheck False,
      validate_addressAndSecret = validateAddressAndSecret exampleKeycheck True,
      validate_options = (\<lambda>options. case options of
          JObj ps \<Rightarrow> validateOptions [''submit'', ''validated''] ps
        | _ \<Rightarrow> None)\<rparr>"

definition exampleTransaction :: transaction where
  "exampleTransaction = \<lparr>tx_json = [(''Account'', JStr ''rA''), (''TransactionType'', JStr ''Payment'')]\<rparr>"

definition identityConverter :: converter where
  "identityConverter message opts = Inr message"

section \<open>Properties of the object operations\<close>

lemma map_of_setProp: "map_of (setProp key v ps) = (map_of ps)(key \<mapsto> v)"
  by (induction ps) (auto simp: fun_eq_iff)

lemma map_of_baseCopy:
  "map_of (baseCopy source ks object) k =
     (if k \<in> set ks then Some (getProp source k) else map_of object k)"
  unfolding baseCopy_def
  by (induction ks arbitrary: object rule: rev_induct) (auto simp: map_of_setProp)

lemma map_of_baseCopy_keys:
  "map_of (baseCopy source (keys source) object) = map_of object ++ map_of source"
proof
  fix k
  show "map_of (baseCopy source (keys source) object) k = (map_of object ++ map_of source) k"
  proof (cases "map_of source k")
    case None
    then have "k \<notin> set (keys source)"
      by (simp add: keys_def map_of_eq_None_iff)
    with None show ?thesis
      by (simp add: map_of_baseCopy map_add_def)
  next
    case (Some v)
    then have "(k, v) \<in> set source"
      by (rule map_of_SomeD)
    then have "k \<in> set (keys source)"
      by (force simp: keys_def)
    with Some show ?thesis
      by (simp add: map_of_baseCopy map_add_def getProp_def)
  qed
qed

lemma map_of_assign2:
  "map_of (assign object [s1, s2]) = map_of object ++ map_of s1 ++ map_of s2"
  by (simp add: assign_def map_of_baseCopy_keys)

lemma setProp_fresh: "key \<notin> fst ` set ps \<Longrightarrow> setProp key v ps = ps @ [(key, v)]"
  by (induction ps) auto

lemma baseCopy_fresh:
  "distinct ks \<Longrightarrow> set ks \<inter> fst ` set object = {} \<Longrightarrow>
     baseCopy source ks object = object @ map (\<lambda>k. (k, getProp source k)) ks"
proof (induction ks arbitrary: object)
  case Nil
  then show ?case by (simp add: baseCopy_def)
next
  case (Cons k ks)
  have fresh: "k \<notin> fst ` set object"
    using Cons.prems(2) by auto
  have step: "baseCopy source (k # ks) object = baseCopy source ks (object @ [(k, getProp source k)])"
    by (simp add: baseCopy_def setProp_fresh [OF fresh])
  have "set ks \<inter> fst ` set (object @ [(k, getProp source k)]) = {}"
    using Cons.prems by auto
  with Cons.IH [of "object @ [(k, getProp source k)]"] Cons.prems(1) step
  show ?case by simp
qed

lemma getProp_distinct:
  "distinct (map fst ps) \<Longrightarrow> map (\<lambda>k. (k, getProp ps k)) (map fst ps) = ps"
proof (induction ps)
  case Nil
  then show ?case by simp
next
  case (Cons p ps)
  obtain k v where p: "p = (k, v)" by (cases p)
  have "map (\<lambda>k'. (k', getProp ((k, v) # ps) k')) (map fst ps) = map (\<lambda>k'. (k', getProp ps k')) (map fst ps)"
    using Cons.prems p by (auto simp: getProp_def)
  with Cons p show ?case by (simp add: getProp_def)
qed

lemma assign_copy:
  assumes "distinct (keys prepared)"
  shows "assign [] [prepared, []] = prepared"
proof -
  have "baseCopy prepared (keys prepared) [] = [] @ map (\<lambda>k. (k, getProp prepared k)) (keys prepared)"
    using assms by (intro baseCopy_fresh) auto
  also have "\<dots> = prepared"
    using getProp_distinct [of prepared] assms unfolding keys_def by simp
  finally show ?thesis
    by (simp add: assign_def baseCopy_def keys_def)
qed

lemma getProp_assign2:
  "getProp (assign object [s1, s2]) key =
     (if hasKey s2 key then getProp s2 key else if hasKey s1 key then getProp s1 key else getProp object key)"
  by (auto simp: getProp_def hasKey_def map_of_assign2 map_add_def split: option.splits)

lemma hasKey_assign2:
  "hasKey (assign object [s1, s2]) key = (hasKey s2 key \<or> hasKey s1 key \<or> hasKey object key)"
  by (auto simp: hasKey_def map_of_assign2 map_add_def split: option.splits)

lemma hasKey_Nil: "hasKey [] key = False"
  by (simp add: hasKey_def)

lemma getProp_Nil: "getProp [] key = JUndefined"
  by (simp add: getProp_def)

lemma getProp_absent: "\<not> hasKey object key \<Longrightarrow> getProp object key = JUndefined"
  by (simp add: getProp_def hasKey_def)

lemma falsy_values:
  "(\<not> truthy v) = (v \<in> {JUndefined, JNull, JBool False, JNum 0, JNaN, JStr []})"
  by (cases v) auto

lemma signIfSecretExists_skips:
  "\<not> truthy secret \<Longrightarrow> signIfSecretExists signer secret prepared = Inr (assign [] [prepared, []])"
  by (simp add: signIfSecretExists_def)

lemmas ex_defs = exampleKeycheck_def recordingCollaborators_def exampleTransaction_def
  identityConverter_def transact_def prepareAndOptionallySign_def prepareAndSignAndSubmit_def
  validateAddressAndSecret_def getProp_def hasKey_def keys_def signIfSecretExists_def
  formatResponse_def assign_def baseCopy_def validateOptions_def difference_def

section \<open>The response formatter\<close>

text \<open>
  Claim C8. For every pipeline result \<open>prepared\<close> and every converter that returns an object
  \<open>converted\<close> for it, \<open>formatResponse\<close> returns the merge of the two: under a key the
  converter supplies, the response holds the converter's value, also where the pipeline
  result has the key too; under every other key it holds what the pipeline result holds;
  and it has no key that neither of them has.
\<close>

theorem formatResponse_merges:
  assumes "conv prepared (JObj []) = Inr converted"
  shows "\<exists>response. formatResponse conv prepared = Inr response \<and>
     (\<forall>key. getProp response key =
              (if hasKey converted key then getProp converted key else getProp prepared key) \<and>
            hasKey response key = (hasKey converted key \<or> hasKey prepared key))"
  using assms
  by (auto simp: formatResponse_def getProp_assign2 hasKey_assign2 hasKey_Nil getProp_Nil
      getProp_absent)

theorem formatResponse_merges_witness:
  "formatResponse (\<lambda>p opts. Inr [(''hash'', JStr ''H2''), (''state'', JStr ''validated'')])
     [(''tx_json'', JObj [(''Account'', JStr ''rA'')]), (''hash'', JStr ''H1'')]
   = Inr [(''tx_json'', JObj [(''Account'', JStr ''rA'')]), (''hash'', JStr ''H2''),
          (''state'', JStr ''validated'')]"
  using formatResponse_merges
    [of "\<lambda>p opts. Inr [(''hash'', JStr ''H2''), (''state'', JStr ''validated'')]"
        "[(''tx_json'', JObj [(''Account'', JStr ''rA'')]), (''hash'', JStr ''H1'')]"
        "[(''hash'', JStr ''H2''), (''state'', JStr ''validated'')]"]
  by (simp add: formatResponse_def assign_def baseCopy_def keys_def getProp_def)

section \<open>Signing when a secret exists\<close>

text \<open>
  Claim C10. \<open>signIfSecretExists\<close> skips signing for every falsy secret, not only an
  absent one: for the empty string, \<^verbatim>\<open>null\<close>, \<^verbatim>\<open>0\<close>, \<^verbatim>\<open>NaN\<close>, \<^verbatim>\<open>false\<close> and
  \<^verbatim>\<open>undefined\<close> (the falsy values, \<open>falsy_values\<close>) it returns a copy of the prepared
  object, whatever the signer would have done with that secret, and so exactly what it
  returns when no secret is supplied. The copy holds the same value under every key and
  has the same keys, so it has no \<^verbatim>\<open>tx_blob\<close> and no \<^verbatim>\<open>hash\<close> that the prepared
  object did not have; it is the prepared object itself when that lists each key once.
\<close>

theorem signIfSecretExists_falsy_secret:
  assumes "\<not> truthy secret"
  shows "signIfSecretExists signer secret prepared = Inr (assign [] [prepared, []])
       \<and> signIfSecretExists signer secret prepared = signIfSecretExists signer' JUndefined prepared
       \<and> (\<forall>key. getProp (assign [] [prepared, []]) key = getProp prepared key
                \<and> hasKey (assign [] [prepared, []]) key = hasKey prepared key)
       \<and> (distinct (keys prepared) \<longrightarrow> assign [] [prepared, []] = prepared)"
  using assms
  by (auto simp: signIfSecretExists_skips getProp_assign2 hasKey_assign2 hasKey_Nil getProp_Nil
      getProp_absent assign_copy)

theorem signIfSecretExists_falsy_secret_witness:
  "\<not> truthy (JStr '''') \<and>
   signIfSecretExists (\<lambda>tx secret. Inl InvalidSecret) (JStr '''')
     [(''tx_json'', JObj [(''Account'', JStr ''rA'')])]
   = Inr [(''tx_json'', JObj [(''Account'', JStr ''rA'')])] \<and>
   signIfSecretExists (\<lambda>tx secret. Inl InvalidSecret) (JStr '''')
     [(''tx_json'', JObj [(''Account'', JStr ''rA'')])]
   = signIfSecretExists (\<lambda>tx secret. Inr [(''tx_blob'', JStr ''AB'')]) JUndefined
     [(''tx_json'', JObj [(''Account'', JStr ''rA'')])]"
  using signIfSecretExists_falsy_secret
    [of "JStr ''''" "\<lambda>tx secret. Inl InvalidSecret"
        "[(''tx_json'', JObj [(''Account'', JStr ''rA'')])]"
        "\<lambda>tx secret. Inr [(''tx_blob'', JStr ''AB'')]"]
  by (simp add: keys_def signIfSecretExists_def)

section \<open>The choice of the pipeline\<close>

text \<open>
  Claim C1. \<open>transact\<close> runs the prepare-only pipeline \<open>prepareAndOptionallySign\<close> when
  \<^verbatim>\<open>options.submit\<close> is the boolean \<^verbatim>\<open>false\<close>, and the full pipeline
  \<open>prepareAndSignAndSubmit\<close> for every other value of \<^verbatim>\<open>options.submit\<close>, also when the
  options have no key \<^verbatim>\<open>submit\<close>. The test is equality with \<^verbatim>\<open>false\<close>, not falsiness:
  on the concrete gateway the values \<^verbatim>\<open>true\<close>, \<^verbatim>\<open>undefined\<close>, \<^verbatim>\<open>0\<close>, \<^verbatim>\<open>null\<close> and a
  missing key all reach the submitter and never the builder, and \<^verbatim>\<open>false\<close> alone
  reaches the builder and never the submitter.
\<close>

theorem transact_selects_pipeline:
  "(options_submit options = Inr (JBool False) \<longrightarrow>
      transact c tx a secret options conv w = prepareAndOptionallySign c tx a secret options conv w)
   \<and> (\<forall>submit. options_submit options = Inr submit \<and> submit \<noteq> JBool False \<longrightarrow>
      transact c tx a secret options conv w = prepareAndSignAndSubmit c tx a secret options conv w)
   \<and> (\<forall>ps. options = JObj ps \<and> \<not> hasKey ps ''submit'' \<longrightarrow>
      transact c tx a secret options conv w = prepareAndSignAndSubmit c tx a secret options conv w)"
  by (auto simp: transact_def getProp_absent)

theorem transact_selects_pipeline_witness:
  "snd (transact recordingCollaborators exampleTransaction \<lparr>remote = ()\<rparr> (JStr ''sA'')
          (JObj [(''submit'', JBool False)]) identityConverter []) = [''createTxJSON'']
   \<and> snd (transact recordingCollaborators exampleTransaction \<lparr>remote = ()\<rparr> (JStr ''sA'')
          (JObj [(''submit'', JBool True)]) identityConverter []) = [''transactions.submit'']
   \<and> snd (transact recordingCollaborators exampleTransaction \<lparr>remote = ()\<rparr> (JStr ''sA'')
          (JObj [(''submit'', JUndefined)]) identityConverter []) = [''transactions.submit'']
   \<and> snd (transact recordingCollaborators exampleTransaction \<lparr>remote = ()\<rparr> (JStr ''sA'')
          (JObj [(''submit'', JNum 0)]) identityConverter []) = [''transactions.submit'']
   \<and> snd (transact recordingCollaborators exampleTransaction \<lparr>remote = ()\<rparr> (JStr ''sA'')
          (JObj [(''submit'', JNull)]) identityConverter []) = [''transactions.submit'']
   \<and> snd (transact recordingCollaborators exampleTransaction \<lparr>remote = ()\<rparr> (JStr ''sA'')
          (JObj []) identityConverter []) = [''transactions.submit'']"
  using transact_selects_pipeline
    [of "JObj [(''submit'', JBool False)]" recordingCollaborators exampleTransaction
        "\<lparr>remote = ()\<rparr>" "JStr ''sA''" identityConverter "[]"]
  by (simp add: ex_defs)

section \<open>Validation errors\<close>

text \<open>
  Claim C4. When the address and secret validation of the chosen pipeline fails, or it
  passes and the validation of the options fails, \<open>transact\<close> throws that error before it
  returns, and the world is as it was: the result does not depend on the builder, the
  submitter or the signer, none of which is invoked.
\<close>

theorem transact_validation_error_is_synchronous:
  assumes "options_submit options = Inr submit"
    and "address = getProp (tx_json tx) ''Account''"
    and "addressCheck = (if submit = JBool False then validate_addressAndMaybeSecret c address secret
                         else validate_addressAndSecret c address secret)"
    and "addressCheck = Some e \<or> (addressCheck = None \<and> validate_options c options = Some e)"
  shows "transact c tx a secret options conv w = (Thrown e, w)
     \<and> transact (c\<lparr>createTxJSON := builder, transactions_submit := submitter, sign := signer\<rparr>)
          tx a secret options conv w = (Thrown e, w)"
  using assms
  by (auto simp: transact_def prepareAndOptionallySign_def prepareAndSignAndSubmit_def
      split: if_splits)

theorem transact_validation_error_is_synchronous_witness:
  "transact recordingCollaborators exampleTransaction \<lparr>remote = ()\<rparr> JUndefined
      (JObj [(''submit'', JBool True)]) identityConverter [] = (Thrown InvalidSecret, [])
   \<and> transact recordingCollaborators exampleTransaction \<lparr>remote = ()\<rparr> (JStr ''sA'')
      (JObj [(''submit'', JBool False), (''sumbit'', JBool True)]) identityConverter []
        = (Thrown (UnrecognizedOption [''sumbit'']), [])"
proof -
  have address: "JStr ''rA'' = getProp (tx_json exampleTransaction) ''Account''"
    by (simp add: exampleTransaction_def getProp_def)
  have submit1: "options_submit (JObj [(''submit'', JBool True)]) = Inr (JBool True)"
    by (simp add: getProp_def)
  have check1: "Some InvalidSecret =
      (if JBool True = JBool False
       then validate_addressAndMaybeSecret recordingCollaborators (JStr ''rA'') JUndefined
       else validate_addressAndSecret recordingCollaborators (JStr ''rA'') JUndefined)"
    by (simp add: recordingCollaborators_def exampleKeycheck_def validateAddressAndSecret_def)
  have submit2: "options_submit (JObj [(''submit'', JBool False), (''sumbit'', JBool True)])
      = Inr (JBool False)"
    by (simp add: getProp_def)
  have check2: "None =
      (if JBool False = JBool False
       then validate_addressAndMaybeSecret recordingCollaborators (JStr ''rA'') (JStr ''sA'')
       else validate_addressAndSecret recordingCollaborators (JStr ''rA'') (JStr ''sA''))"
    by (simp add: recordingCollaborators_def exampleKeycheck_def validateAddressAndSecret_def)
  have options2: "validate_options recordingCollaborators
      (JObj [(''submit'', JBool False), (''sumbit'', JBool True)])
        = Some (UnrecognizedOption [''sumbit''])"
    by (simp add: recordingCollaborators_def validateOptions_def difference_def keys_def)
  have first: "transact recordingCollaborators exampleTransaction \<lparr>remote = ()\<rparr> JUndefined
      (JObj [(''submit'', JBool True)]) identityConverter [] = (Thrown InvalidSecret, [])"
    using transact_validation_error_is_synchronous [OF submit1 address check1] by simp
  have second: "transact recordingCollaborators exampleTransaction \<lparr>remote = ()\<rparr> (JStr ''sA'')
      (JObj [(''submit'', JBool False), (''sumbit'', JBool True)]) identityConverter []
        = (Thrown (UnrecognizedOption [''sumbit'']), [])"
    using transact_validation_error_is_synchronous [OF submit2 address check2] options2 by simp
  from first second show ?thesis by simp
qed

text \<open>
  Claim C5. With the validators as the specification describes them, every request that
  is routed to the full pipeline (\<^verbatim>\<open>options.submit\<close> is not \<^verbatim>\<open>false\<close>) without a secret
  fails with a validation error, thrown before anything is submitted: \<open>InvalidSecret\<close> for
  a valid address, \<open>InvalidAddress\<close> otherwise. The prepare-only pipeline accepts the
  absent secret: for a valid address and valid options it throws nothing and goes on to
  the builder.
\<close>

theorem full_submission_requires_secret:
  assumes "validate_addressAndSecret c = validateAddressAndSecret kc True"
    and "validate_addressAndMaybeSecret c = validateAddressAndSecret kc False"
    and "options_submit options = Inr submit"
    and "address = getProp (tx_json tx) ''Account''"
  shows "(submit \<noteq> JBool False \<longrightarrow>
           transact c tx a JUndefined options conv w =
             (Thrown (if addressValid kc address then InvalidSecret else InvalidAddress), w))
       \<and> (submit = JBool False \<and> addressValid kc address \<and> validate_options c options = None \<longrightarrow>
           validate_addressAndMaybeSecret c address JUndefined = None
           \<and> \<not> isThrown (fst (transact c tx a JUndefined options conv w))
           \<and> snd (transact c tx a JUndefined options conv w) = snd (createTxJSON c tx (remote a) options w))"
  using assms
  by (auto simp: transact_def prepareAndOptionallySign_def prepareAndSignAndSubmit_def
      validateAddressAndSecret_def signIfSecretExists_def formatResponse_def
      split: prod.splits sum.splits)

theorem full_submission_requires_secret_witness:
  "transact recordingCollaborators exampleTransaction \<lparr>remote = ()\<rparr> JUndefined
      (JObj []) identityConverter [] = (Thrown InvalidSecret, [])
   \<and> \<not> isThrown (fst (transact recordingCollaborators exampleTransaction \<lparr>remote = ()\<rparr> JUndefined
      (JObj [(''submit'', JBool False)]) identityConverter []))
   \<and> snd (transact recordingCollaborators exampleTransaction \<lparr>remote = ()\<rparr> JUndefined
      (JObj [(''submit'', JBool False)]) identityConverter []) = [''createTxJSON'']"
proof -
  have mandatory: "validate_addressAndSecret recordingCollaborators
      = validateAddressAndSecret exampleKeycheck True"
    by (simp add: recordingCollaborators_def)
  have optional: "validate_addressAndMaybeSecret recordingCollaborators
      = validateAddressAndSecret exampleKeycheck False"
    by (simp add: recordingCollaborators_def)
  have address: "JStr ''rA'' = getProp (tx_json exampleTransaction) ''Account''"
    by (simp add: exampleTransaction_def getProp_def)
  have valid: "addressValid exampleKeycheck (JStr ''rA'')"
    by (simp add: exampleKeycheck_def)
  have submit1: "options_submit (JObj []) = Inr JUndefined"
    by (simp add: getProp_def)
  have submit2: "options_submit (JObj [(''submit'', JBool False)]) = Inr (JBool False)"
    by (simp add: getProp_def)
  have options2: "validate_options recordingCollaborators (JObj [(''submit'', JBool False)]) = None"
    by (simp add: recordingCollaborators_def validateOptions_def difference_def keys_def)
  have built: "snd (createTxJSON recordingCollaborators exampleTransaction
      (remote \<lparr>remote = ()\<rparr>) (JObj [(''submit'', JBool False)]) []) = [''createTxJSON'']"
    by (simp add: recordingCollaborators_def)
  have first: "transact recordingCollaborators exampleTransaction \<lparr>remote = ()\<rparr> JUndefined
      (JObj []) identityConverter [] = (Thrown InvalidSecret, [])"
    using full_submission_requires_secret [OF mandatory optional submit1 address] valid by simp
  have second: "\<not> isThrown (fst (transact recordingCollaborators exampleTransaction
        \<lparr>remote = ()\<rparr> JUndefined (JObj [(''submit'', JBool False)]) identityConverter []))
      \<and> snd (transact recordingCollaborators exampleTransaction \<lparr>remote = ()\<rparr> JUndefined
        (JObj [(''submit'', JBool False)]) identityConverter []) = [''createTxJSON'']"
    using full_submission_requires_secret [OF mandatory optional submit2 address] valid options2 built
    by simp
  from first second show ?thesis by simp
qed

section \<open>Preparing without a secret\<close>

text \<open>
  Claim C6. In the prepare-only pipeline with no secret supplied, the signing stage is
  skipped: \<open>signIfSecretExists\<close> returns a copy of what the builder prepared, merged with
  an empty signing result, whatever the signer is. The response is that copy merged with
  the converter's object, so it holds the prepared \<^verbatim>\<open>tx_json\<close> unchanged unless the
  converter supplies one, and it has a \<^verbatim>\<open>tx_blob\<close> or a \<^verbatim>\<open>hash\<close> only if the builder or
  the converter supplied it; the signer supplies none. Where the builder has put the
  request's source account into the prepared \<^verbatim>\<open>tx_json\<close>, the response's
  \<^verbatim>\<open>tx_json.Account\<close> is that account. On the concrete gateway, whose
  builder copies the request's \<^verbatim>\<open>tx_json\<close>, the response's \<^verbatim>\<open>tx_json.Account\<close> is the
  request's source account and the response has neither a \<^verbatim>\<open>tx_blob\<close> nor a \<^verbatim>\<open>hash\<close>.
\<close>

theorem prepare_only_without_secret_is_unsigned:
  assumes "options_submit options = Inr (JBool False)"
    and "validate_addressAndMaybeSecret c (getProp (tx_json tx) ''Account'') JUndefined = None"
    and "validate_options c options = None"
    and "createTxJSON c tx (remote a) options w = (Inr prepared, w')"
    and "conv (assign [] [prepared, []]) (JObj []) = Inr converted"
  shows "signIfSecretExists (sign c) JUndefined prepared = Inr (assign [] [prepared, []])
     \<and> (\<forall>key. getProp (assign [] [prepared, []]) key = getProp prepared key
              \<and> hasKey (assign [] [prepared, []]) key = hasKey prepared key)
     \<and> (\<exists>response.
           transact c tx a JUndefined options conv w = (CallbackResult response, w')
         \<and> transact (c\<lparr>sign := signer\<rparr>) tx a JUndefined options conv w = (CallbackResult response, w')
         \<and> (\<forall>key. getProp response key =
                     (if hasKey converted key then getProp converted key else getProp prepared key))
         \<and> (\<forall>key. hasKey response key = (hasKey converted key \<or> hasKey prepared key))
         \<and> (\<not> hasKey converted ''tx_json'' \<longrightarrow> getProp response ''tx_json'' = getProp prepared ''tx_json'')
         \<and> (\<forall>fields. \<not> hasKey converted ''tx_json'' \<and> getProp prepared ''tx_json'' = JObj fields
                \<and> getProp fields ''Account'' = getProp (tx_json tx) ''Account'' \<longrightarrow>
              (\<exists>fields'. getProp response ''tx_json'' = JObj fields'
                \<and> getProp fields' ''Account'' = getProp (tx_json tx) ''Account''))
         \<and> (\<not> hasKey prepared ''tx_blob'' \<and> \<not> hasKey converted ''tx_blob'' \<longrightarrow> \<not> hasKey response ''tx_blob'')
         \<and> (\<not> hasKey prepared ''hash'' \<and> \<not> hasKey converted ''hash'' \<longrightarrow> \<not> hasKey response ''hash''))"
proof -
  let ?copy = "assign [] [prepared, []]"
  let ?response = "assign [] [?copy, converted]"
  have skipped: "signIfSecretExists s JUndefined prepared = Inr ?copy" for s
    by (simp add: signIfSecretExists_skips)
  have formatted: "formatResponse conv ?copy = Inr ?response"
    using assms(5) by (simp add: formatResponse_def)
  have run: "transact c' tx a JUndefined options conv w = (CallbackResult ?response, w')"
    if "validate_addressAndMaybeSecret c' = validate_addressAndMaybeSecret c"
      and "validate_options c' = validate_options c"
      and "createTxJSON c' = createTxJSON c" for c' :: "('a, 'b) collaborators"
    using that assms(1-4) skipped [of "sign c'"] formatted
    by (simp add: transact_def prepareAndOptionallySign_def)
  have copy_get: "getProp ?copy key = getProp prepared key" for key
    by (simp add: getProp_assign2 hasKey_Nil getProp_Nil getProp_absent)
  have copy_has: "hasKey ?copy key = hasKey prepared key" for key
    by (simp add: hasKey_assign2 hasKey_Nil)
  have get: "getProp ?response key =
      (if hasKey converted key then getProp converted key else getProp prepared key)" for key
    by (simp add: getProp_assign2 [of "[]" ?copy converted] copy_get copy_has getProp_Nil
        getProp_absent)
  have has: "hasKey ?response key = (hasKey converted key \<or> hasKey prepared key)" for key
    by (simp add: hasKey_assign2 [of "[]" ?copy converted] copy_has hasKey_Nil)
  show ?thesis
    using skipped [of "sign c"] run [of c] run [of "c\<lparr>sign := signer\<rparr>"] get has
      copy_get copy_has
    by simp
qed

theorem prepare_only_without_secret_is_unsigned_witness:
  "transact recordingCollaborators exampleTransaction \<lparr>remote = ()\<rparr> JUndefined
      (JObj [(''submit'', JBool False)]) identityConverter []
    = (CallbackResult [(''tx_json'', JObj [(''Account'', JStr ''rA''), (''TransactionType'', JStr ''Payment'')])],
       [''createTxJSON''])
   \<and> \<not> hasKey [(''tx_json'', JObj [(''Account'', JStr ''rA''), (''TransactionType'', JStr ''Payment'')])] ''tx_blob''
   \<and> \<not> hasKey [(''tx_json'', JObj [(''Account'', JStr ''rA''), (''TransactionType'', JStr ''Payment'')])] ''hash''"
proof -
  let ?prepared = "[(''tx_json'', JObj [(''Account'', JStr ''rA''), (''TransactionType'', JStr ''Payment'')])]"
  have submit: "options_submit (JObj [(''submit'', JBool False)]) = Inr (JBool False)"
    by (simp add: getProp_def)
  have address: "validate_addressAndMaybeSecret recordingCollaborators
      (getProp (tx_json exampleTransaction) ''Account'') JUndefined = None"
    by (simp add: recordingCollaborators_def exampleKeycheck_def exampleTransaction_def
        validateAddressAndSecret_def getProp_def)
  have options: "validate_options recordingCollaborators (JObj [(''submit'', JBool False)]) = None"
    by (simp add: recordingCollaborators_def validateOptions_def difference_def keys_def)
  have built: "createTxJSON recordingCollaborators exampleTransaction (remote \<lparr>remote = ()\<rparr>)
      (JObj [(''submit'', JBool False)]) [] = (Inr ?prepared, [''createTxJSON''])"
    by (simp add: recordingCollaborators_def exampleTransaction_def)
  have copy: "assign [] [?prepared, []] = ?prepared"
    by (simp add: assign_def baseCopy_def keys_def getProp_def)
  have converted: "identityConverter (assign [] [?prepared, []]) (JObj []) = Inr ?prepared"
    by (simp add: identityConverter_def copy)
  obtain response where
    run: "transact recordingCollaborators exampleTransaction \<lparr>remote = ()\<rparr> JUndefined
      (JObj [(''submit'', JBool False)]) identityConverter [] = (CallbackResult response, [''createTxJSON''])"
    and no_blob: "\<not> hasKey ?prepared ''tx_blob'' \<and> \<not> hasKey ?prepared ''tx_blob'' \<longrightarrow> \<not> hasKey response ''tx_blob''"
    using prepare_only_without_secret_is_unsigned
        [where conv = identityConverter, OF submit address options built converted]
    by blast
  have "transact recordingCollaborators exampleTransaction \<lparr>remote = ()\<rparr> JUndefined
      (JObj [(''submit'', JBool False)]) identityConverter [] = (CallbackResult ?prepared, [''createTxJSON''])"
    by (simp add: ex_defs)
  then show ?thesis
    using run by (simp add: hasKey_def)
qed

section \<open>Unrecognized options\<close>

text \<open>
  Claim C7. With the options validator as the specification describes it, an options
  object with a key outside the recognized set fails validation with
  \<open>UnrecognizedOption\<close>, and the error carries exactly the keys that are not recognized;
  an options object whose keys are all recognized passes. No unrecognized key is ignored
  by the gateway: both pipelines of \<open>transact\<close> call the validator before anything else
  but the address check, so such a request always ends in an exception thrown before
  \<open>transact\<close> returns, with the world as it was; when the address check of the chosen
  pipeline passes, the exception is the \<open>UnrecognizedOption\<close> of the offending keys.
\<close>

theorem validateOptions_fails_closed:
  "(set (keys options) \<subseteq> set recognized \<longrightarrow> validateOptions recognized options = None)
   \<and> (\<not> set (keys options) \<subseteq> set recognized \<longrightarrow>
        (\<exists>offending. validateOptions recognized options = Some (UnrecognizedOption offending)
           \<and> offending \<noteq> []
           \<and> set offending = set (keys options) - set recognized
           \<and> (validate_options c (JObj options) = validateOptions recognized options \<longrightarrow>
                 isThrown (fst (transact c tx a secret (JObj options) conv w))
                 \<and> snd (transact c tx a secret (JObj options) conv w) = w
                 \<and> ((if getProp options ''submit'' = JBool False
                      then validate_addressAndMaybeSecret c (getProp (tx_json tx) ''Account'') secret
                      else validate_addressAndSecret c (getProp (tx_json tx) ''Account'') secret) = None \<longrightarrow>
                     transact c tx a secret (JObj options) conv w
                       = (Thrown (UnrecognizedOption offending), w)))))"
proof (intro conjI impI)
  assume "set (keys options) \<subseteq> set recognized"
  then have "difference (keys options) recognized = []"
    by (auto simp: difference_def filter_empty_conv)
  then show "validateOptions recognized options = None"
    by (simp add: validateOptions_def)
next
  let ?offending = "difference (keys options) recognized"
  assume "\<not> set (keys options) \<subseteq> set recognized"
  then have nonempty: "?offending \<noteq> []"
    by (auto simp: difference_def filter_empty_conv)
  then have failed: "validateOptions recognized options = Some (UnrecognizedOption ?offending)"
    by (simp add: validateOptions_def Let_def)
  have exact: "set ?offending = set (keys options) - set recognized"
    by (auto simp: difference_def)
  have gateway:
    "validate_options c (JObj options) = validateOptions recognized options \<longrightarrow>
     isThrown (fst (transact c tx a secret (JObj options) conv w))
     \<and> snd (transact c tx a secret (JObj options) conv w) = w
     \<and> ((if getProp options ''submit'' = JBool False
          then validate_addressAndMaybeSecret c (getProp (tx_json tx) ''Account'') secret
          else validate_addressAndSecret c (getProp (tx_json tx) ''Account'') secret) = None \<longrightarrow>
         transact c tx a secret (JObj options) conv w = (Thrown (UnrecognizedOption ?offending), w))"
    using failed
    by (auto simp: transact_def prepareAndOptionallySign_def prepareAndSignAndSubmit_def
        split: option.splits)
  have "validateOptions recognized options = Some (UnrecognizedOption ?offending)
           \<and> ?offending \<noteq> []
           \<and> set ?offending = set (keys options) - set recognized
           \<and> (validate_options c (JObj options) = validateOptions recognized options \<longrightarrow>
                 isThrown (fst (transact c tx a secret (JObj options) conv w))
                 \<and> snd (transact c tx a secret (JObj options) conv w) = w
                 \<and> ((if getProp options ''submit'' = JBool False
                      then validate_addressAndMaybeSecret c (getProp (tx_json tx) ''Account'') secret
                      else validate_addressAndSecret c (getProp (tx_json tx) ''Account'') secret) = None \<longrightarrow>
                     transact c tx a secret (JObj options) conv w
                       = (Thrown (UnrecognizedOption ?offending), w)))"
    using failed nonempty exact gateway by (intro conjI) assumption+
  then show "\<exists>offending. validateOptions recognized options = Some (UnrecognizedOption offending)
           \<and> offending \<noteq> []
           \<and> set offending = set (keys options) - set recognized
           \<and> (validate_options c (JObj options) = validateOptions recognized options \<longrightarrow>
                 isThrown (fst (transact c tx a secret (JObj options) conv w))
                 \<and> snd (transact c tx a secret (JObj options) conv w) = w
                 \<and> ((if getProp options ''submit'' = JBool False
                      then validate_addressAndMaybeSecret c (getProp (tx_json tx) ''Account'') secret
                      else validate_addressAndSecret c (getProp (tx_json tx) ''Account'') secret) = None \<longrightarrow>
                     transact c tx a secret (JObj options) conv w
                       = (Thrown (UnrecognizedOption offending), w)))"
    by (rule exI)
qed

theorem validateOptions_fails_closed_witness:
  "validateOptions [''submit'', ''validated'']
      [(''submit'', JBool False), (''sumbit'', JBool True), (''validated'', JNull), (''fee'', JNum 12)]
     = Some (UnrecognizedOption [''sumbit'', ''fee''])
   \<and> validateOptions [''submit'', ''validated''] [(''validated'', JBool True), (''submit'', JBool False)]
     = None
   \<and> transact recordingCollaborators exampleTransaction \<lparr>remote = ()\<rparr> (JStr ''sA'')
        (JObj [(''sumbit'', JBool False)]) identityConverter []
     = (Thrown (UnrecognizedOption [''sumbit'']), [])"
proof -
  have rejected: "validateOptions [''submit'', ''validated'']
      [(''submit'', JBool False), (''sumbit'', JBool True), (''validated'', JNull), (''fee'', JNum 12)]
     = Some (UnrecognizedOption [''sumbit'', ''fee''])"
    using validateOptions_fails_closed
      [of "[(''submit'', JBool False), (''sumbit'', JBool True), (''validated'', JNull), (''fee'', JNum 12)]"
          "[''submit'', ''validated'']"]
    by (simp add: validateOptions_def difference_def keys_def)
  have accepted: "validateOptions [''submit'', ''validated'']
      [(''validated'', JBool True), (''submit'', JBool False)] = None"
    using validateOptions_fails_closed
      [of "[(''validated'', JBool True), (''submit'', JBool False)]" "[''submit'', ''validated'']"]
    by (simp add: keys_def)
  have outside: "\<not> set (keys [(''sumbit'', JBool False)]) \<subseteq> set [''submit'', ''validated'']"
    by (simp add: keys_def)
  have same: "validate_options recordingCollaborators (JObj [(''sumbit'', JBool False)])
      = validateOptions [''submit'', ''validated''] [(''sumbit'', JBool False)]"
    by (simp add: recordingCollaborators_def)
  have address: "(if getProp [(''sumbit'', JBool False)] ''submit'' = JBool False
      then validate_addressAndMaybeSecret recordingCollaborators
             (getProp (tx_json exampleTransaction) ''Account'') (JStr ''sA'')
      else validate_addressAndSecret recordingCollaborators
             (getProp (tx_json exampleTransaction) ''Account'') (JStr ''sA'')) = None"
    by (simp add: recordingCollaborators_def exampleKeycheck_def exampleTransaction_def
        validateAddressAndSecret_def getProp_def)
  have offending: "validateOptions [''submit'', ''validated''] [(''sumbit'', JBool False)]
      = Some (UnrecognizedOption [''sumbit''])"
    by (simp add: validateOptions_def difference_def keys_def)
  have thrown: "transact recordingCollaborators exampleTransaction \<lparr>remote = ()\<rparr> (JStr ''sA'')
        (JObj [(''sumbit'', JBool False)]) identityConverter []
     = (Thrown (UnrecognizedOption [''sumbit'']), [])"
    using validateOptions_fails_closed
      [of "[(''sumbit'', JBool False)]" "[''submit'', ''validated'']" recordingCollaborators
          exampleTransaction "\<lparr>remote = ()\<rparr>" "JStr ''sA''" identityConverter "[]"]
      outside same address offending
    by auto
  from rejected accepted thrown show ?thesis
    by simp
qed

section \<open>Expiry after the ledger offset\<close>

lemma closeLedgers_from_sends:
  "i \<le> LEDGER_OFFSET + 2 \<Longrightarrow>
     closeLedgers_from ledgerClose i conn = conn @ map ledgerClose [Suc i..<LEDGER_OFFSET + 3]"
proof (induction ledgerClose i conn rule: closeLedgers_from.induct)
  case (1 ledgerClose i conn)
  show ?case
  proof (cases "i < LEDGER_OFFSET + 2")
    case True
    then have "[Suc i..<LEDGER_OFFSET + 3] = Suc i # [Suc (Suc i)..<LEDGER_OFFSET + 3]"
      by (simp add: upt_conv_Cons)
    with True 1 show ?thesis
      by (subst closeLedgers_from.simps) simp
  next
    case False
    with 1 have "i = LEDGER_OFFSET + 2" by simp
    then show ?thesis
      by (subst closeLedgers_from.simps) simp
  qed
qed

lemma closeLedgers_sends:
  "closeLedgers ledgerClose conn = conn @ map ledgerClose [1, 2, 3, 4, 5]"
proof -
  have "[Suc 0..<LEDGER_OFFSET + 3] = [1, 2, 3, 4, 5]"
    by (simp add: LEDGER_OFFSET_def upt_conv_Cons)
  then show ?thesis
    by (simp add: closeLedgers_def closeLedgers_from_sends)
qed

lemma closesAfter_Suc: "closesAfter L (Suc n) = closesAfter L n @ [L + Suc n]"
  by (simp add: closesAfter_def)

lemma deliver_Suc:
  "deliverLedgerCloses (closesAfter L (Suc n)) t =
     onLedgerClose (L + Suc n) (deliverLedgerCloses (closesAfter L n) t)"
  by (simp add: deliverLedgerCloses_def closesAfter_Suc)

lemma find_over_map: "find P (map f xs) = map_option f (find (P \<circ> f) xs)"
  by (induction xs) auto

lemma find_snoc_fresh: "find P xs = None \<Longrightarrow> find P (xs @ [y]) = (if P y then Some y else None)"
  by (induction xs) (auto split: if_splits)

lemma findEntry_onLedgerClose:
  "findEntry acct sq (onLedgerClose i t) = map_option (expireEntry i) (findEntry acct sq t)"
proof -
  have "(\<lambda>e. account e = acct \<and> sequence e = sq) \<circ> expireEntry i
      = (\<lambda>e. account e = acct \<and> sequence e = sq)"
    by (auto simp: fun_eq_iff expireEntry_def)
  then show ?thesis
    by (simp add: findEntry_def onLedgerClose_def find_over_map)
qed

lemma findEntry_submitEntry:
  "findEntry acct sq t = None \<Longrightarrow>
     findEntry acct sq (submitEntry acct sq t) =
       Some \<lparr>account = acct, sequence = sq,
             LastLedgerSequence = currentLedger t + LEDGER_OFFSET,
             submittedAtLedger = currentLedger t, status = pending\<rparr>"
  by (simp add: findEntry_def submitEntry_def builderLastLedgerSequence_def find_snoc_fresh)

lemma status_after_closes:
  assumes "findEntry acct sq t = None"
  shows "findEntry acct sq (deliverLedgerCloses (closesAfter (currentLedger t) n) (submitEntry acct sq t)) =
     Some \<lparr>account = acct, sequence = sq,
           LastLedgerSequence = currentLedger t + LEDGER_OFFSET,
           submittedAtLedger = currentLedger t,
           status = (if n \<le> LEDGER_OFFSET then pending else expired)\<rparr>"
proof (induction n)
  case 0
  show ?case
    using findEntry_submitEntry [OF assms]
    by (simp add: closesAfter_def deliverLedgerCloses_def)
next
  case (Suc n)
  show ?case
    by (simp add: deliver_Suc findEntry_onLedgerClose Suc expireEntry_def)
qed

text \<open>
  Claim C2. \<open>LEDGER_OFFSET\<close> is 3, so a transaction submitted at ledger index \<open>L\<close> is
  built with \<^verbatim>\<open>LastLedgerSequence = L + 3\<close>. \<open>closeLedgers\<close> sends the ledger-close messages
  of the five indexes 1 to 5. Delivering the five closes \<open>L + 1, ..., L + 5\<close> to the
  tracker, and no confirmation, leaves the entry expired and out of the active set, and
  the pipeline reports \<open>Expired\<close>; delivering fewer than four of them, \<open>L + 1, ..., L + n\<close>
  with \<open>n < 4\<close>, leaves it pending.
\<close>

theorem expiry_after_ledger_closes:
  assumes "findEntry acct sq t = None" and "currentLedger t = L"
  shows "LEDGER_OFFSET = 3
    \<and> builderLastLedgerSequence L = L + 3
    \<and> (\<exists>e. findEntry acct sq (submitEntry acct sq t) = Some e
          \<and> LastLedgerSequence e = L + 3 \<and> submittedAtLedger e = L \<and> status e = pending)
    \<and> closeLedgers ledgerClose [] = map ledgerClose (closesAfter 0 5)
    \<and> (\<exists>e. findEntry acct sq (deliverLedgerCloses (closesAfter L 5) (submitEntry acct sq t)) = Some e
          \<and> status e = expired \<and> pipelineResult (status e) = Some (Inl Expired)
          \<and> e \<notin> set (activeSet (deliverLedgerCloses (closesAfter L 5) (submitEntry acct sq t))))
    \<and> (\<forall>n<4. \<exists>e. findEntry acct sq (deliverLedgerCloses (closesAfter L n) (submitEntry acct sq t)) = Some e
          \<and> status e = pending \<and> pipelineResult (status e) = None)"
proof -
  note after = status_after_closes [OF assms(1), unfolded assms(2)]
  have offset: "LEDGER_OFFSET = 3"
    by (simp add: LEDGER_OFFSET_def)
  have window: "builderLastLedgerSequence L = L + 3"
    by (simp add: builderLastLedgerSequence_def offset)
  have submitted: "\<exists>e. findEntry acct sq (submitEntry acct sq t) = Some e
      \<and> LastLedgerSequence e = L + 3 \<and> submittedAtLedger e = L \<and> status e = pending"
    using findEntry_submitEntry [OF assms(1)] assms(2) by (simp add: offset)
  have "closesAfter 0 5 = [1, 2, 3, 4, 5]"
    by (simp add: closesAfter_def upt_conv_Cons eval_nat_numeral)
  then have sent: "closeLedgers ledgerClose [] = map ledgerClose (closesAfter 0 5)"
    by (simp add: closeLedgers_sends)
  have five: "\<exists>e. findEntry acct sq (deliverLedgerCloses (closesAfter L 5) (submitEntry acct sq t)) = Some e
      \<and> status e = expired \<and> pipelineResult (status e) = Some (Inl Expired)
      \<and> e \<notin> set (activeSet (deliverLedgerCloses (closesAfter L 5) (submitEntry acct sq t)))"
    by (simp add: after [of 5] offset activeSet_def)
  have fewer: "\<exists>e. findEntry acct sq (deliverLedgerCloses (closesAfter L n) (submitEntry acct sq t)) = Some e
      \<and> status e = pending \<and> pipelineResult (status e) = None" if "n < 4" for n
    using that by (simp add: after [of n] offset)
  from offset window submitted sent five fewer show ?thesis
    by blast
qed

theorem expiry_after_ledger_closes_witness:
  "findEntry ''rA'' 7 \<lparr>currentLedger = 0, entries = []\<rparr> = None
   \<and> closeLedgers (\<lambda>ledgerIndex. ledgerIndex) [] = [1, 2, 3, 4, 5]
   \<and> findEntry ''rA'' 7
        (deliverLedgerCloses (closeLedgers (\<lambda>ledgerIndex. ledgerIndex) [])
          (submitEntry ''rA'' 7 \<lparr>currentLedger = 0, entries = []\<rparr>))
      = Some \<lparr>account = ''rA'', sequence = 7, LastLedgerSequence = 3, submittedAtLedger = 0,
              status = expired\<rparr>
   \<and> findEntry ''rA'' 7
        (deliverLedgerCloses [1, 2, 3] (submitEntry ''rA'' 7 \<lparr>currentLedger = 0, entries = []\<rparr>))
      = Some \<lparr>account = ''rA'', sequence = 7, LastLedgerSequence = 3, submittedAtLedger = 0,
              status = pending\<rparr>"
proof -
  have fresh: "findEntry ''rA'' 7 \<lparr>currentLedger = 0, entries = []\<rparr> = None"
    by (simp add: findEntry_def)
  have ledger: "currentLedger \<lparr>currentLedger = 0, entries = []\<rparr> = 0"
    by simp
  note scenario = expiry_after_ledger_closes [OF fresh ledger, of "\<lambda>ledgerIndex. ledgerIndex"]
  have sent: "closeLedgers (\<lambda>ledgerIndex. ledgerIndex) [] = [1, 2, 3, 4, 5]"
    using scenario by (simp add: closesAfter_def upt_conv_Cons eval_nat_numeral)
  have expires: "findEntry ''rA'' 7
        (deliverLedgerCloses [1, 2, 3, 4, 5] (submitEntry ''rA'' 7 \<lparr>currentLedger = 0, entries = []\<rparr>))
      = Some \<lparr>account = ''rA'', sequence = 7, LastLedgerSequence = 3, submittedAtLedger = 0,
              status = expired\<rparr>"
    by (simp add: deliverLedgerCloses_def onLedgerClose_def expireEntry_def submitEntry_def
        findEntry_def builderLastLedgerSequence_def LEDGER_OFFSET_def)
  have waits: "findEntry ''rA'' 7
        (deliverLedgerCloses [1, 2, 3] (submitEntry ''rA'' 7 \<lparr>currentLedger = 0, entries = []\<rparr>))
      = Some \<lparr>account = ''rA'', sequence = 7, LastLedgerSequence = 3, submittedAtLedger = 0,
              status = pending\<rparr>"
    by (simp add: deliverLedgerCloses_def onLedgerClose_def expireEntry_def submitEntry_def
        findEntry_def builderLastLedgerSequence_def LEDGER_OFFSET_def)
  from fresh sent expires waits show ?thesis
    by simp
qed

end
